theory Spec2Isabelle
  imports Main "HOL-Library.Word" "HOL-Library.AList" "HOL-Library.Sublist"
begin

unbundle bit_operations_syntax

section \<open>The mesh informer of pkg/object/meshcontroller/informer/informer.go\<close>

text \<open>
  The informer turns the raw watch streams of the store into filtered callbacks. This
  theory embeds its functions one by one: the watcher-key derivations, the typed
  \<open>OnPartOf...\<close> bindings, \<open>comparePart\<close>, the registry operations \<open>onSpecPart\<close>,
  \<open>onSpecs\<close>, \<open>stopWatchOneKey\<close> and \<open>Close\<close>, and the two runner goroutines
  \<open>watch\<close> and \<open>watchPrefix\<close>.

  Conventions of the embedding.
  \<^item> A Go pointer that may be nil is an \<open>option\<close>; dereferencing \<open>None\<close> is the
    outcome \<open>Panicked\<close> of the runner, never an unspecified HOL value.
  \<^item> A channel is the list of elements it delivers before it is closed. Receiving from a
    closed channel yields the zero value (nil), and \<open>range\<close> ends there.
  \<^item> A Go map that the code iterates over is an association list with distinct keys;
    Go fixes no iteration order, so the theorems speak about lookups, membership and
    counts, not about positions.
  \<^item> The third-party functions (\<open>yamljsontool.YAMLToJSON\<close>, \<open>gjson.Get\<close>,
    \<open>yaml.Unmarshal\<close>), the package \<open>layout\<close> and the store behind the interface
    \<open>storage.Storage\<close> are not part of this source file; they are parameters.
  \<^item> The receiver \<open>inf\<close> of the Go methods is the argument \<open>mi\<close>, returned updated.
  \<^item> The mutex serialises the registry operations; each of them is one atomic state
    transformer here. A runner is run on its own, from the informer it is given to the
    end of its channel: calls of other goroutines are not interleaved with it. The
    field \<open>done\<close> is never used by the code and is left out.
\<close>

subsection \<open>Data\<close>

type_synonym GJSONPath = string
type_synonym int64 = "64 word"

text \<open>\<open>mvccpb.KeyValue\<close>, with the fields the informer reads.\<close>

record KeyValue =
  Key :: string
  ModRevision :: int64
  Version :: int64
  Value :: string

text \<open>\<open>clientv3.Event\<close>: \<open>Kv\<close> is a pointer.\<close>

record clientv3_Event =
  Kv :: "KeyValue option"

text \<open>The inform event handed to callbacks.\<close>

record Event =
  EventType :: string
  RawKV :: "KeyValue option"

definition EventUpdate :: string where
  "EventUpdate = ''Update''"

definition EventDelete :: string where
  "EventDelete = ''Delete''"

definition AllParts :: GJSONPath where
  "AllParts = ''''"

definition ServiceObservability :: GJSONPath where
  "ServiceObservability = ''observability''"

definition ServiceResilience :: GJSONPath where
  "ServiceResilience = ''resilience''"

definition ServiceCanary :: GJSONPath where
  "ServiceCanary = ''canary''"

definition ServiceLoadBalance :: GJSONPath where
  "ServiceLoadBalance = ''loadBalance''"

definition ServiceCircuitBreaker :: GJSONPath where
  "ServiceCircuitBreaker = ''resilience.circuitBreaker''"

type_synonym specHandleFunc = "Event \<Rightarrow> string \<Rightarrow> bool"
type_synonym specsHandleFunc = "(string \<rightharpoonup> string) \<Rightarrow> bool"

datatype error = ErrAlreadyWatched | ErrClosed | ErrNotFound | StoreError string

subsection \<open>comparePart\<close>

text \<open>
  \<open>YAMLToJSON\<close> returns \<open>None\<close> where the library returns an error. The result type
  of \<open>gjson.Get\<close> is left open; HOL equality on it stands for Go's \<open>==\<close> on
  \<open>gjson.Result\<close>.
\<close>

definition comparePart ::
  "(string \<Rightarrow> string option) \<Rightarrow> (string \<Rightarrow> string \<Rightarrow> 'r) \<Rightarrow>
     GJSONPath \<Rightarrow> string \<Rightarrow> string \<Rightarrow> bool" where
  "comparePart YAMLToJSON gjson_Get path old new =
     (if path = AllParts then old = new
      else case YAMLToJSON old of
             None \<Rightarrow> True
           | Some oldJSON \<Rightarrow>
               (case YAMLToJSON new of
                  None \<Rightarrow> True
                | Some newJSON \<Rightarrow> gjson_Get oldJSON path = gjson_Get newJSON path))"

subsection \<open>The store behind \<open>storage.Storage\<close>\<close>

text \<open>
  A watch handle is identified by the number of handles the store has issued before it.
  What the informer does to the store is kept as a log, most recent call last.
\<close>

type_synonym Watcher = nat

datatype store_call =
    NewWatcher Watcher
  | WatchRawFromRev Watcher string int64
  | WatchRawPrefixFromRev Watcher string int64
  | CloseWatcher Watcher
  | GoWatch string GJSONPath
  | GoWatchPrefix string

text \<open>
  The answers of the store. \<open>GetRaw\<close> returns \<open>(kv, err)\<close>: \<open>Inl err\<close>, or
  \<open>Inr None\<close> for the nil record of an absent key. \<open>GetRawPrefix\<close> returns the
  records under a prefix (a Go map, distinct keys, no nil record). The three
  \<open>...Err\<close> fields say whether \<open>store.Watcher()\<close> (given the number of handles
  issued so far), \<open>watcher.WatchRawFromRev\<close> and \<open>watcher.WatchRawPrefixFromRev\<close>
  fail.
\<close>

record Storage =
  GetRaw :: "string \<Rightarrow> error + KeyValue option"
  GetRawPrefix :: "string \<Rightarrow> error + (string \<times> KeyValue) list"
  WatcherErr :: "nat \<Rightarrow> error option"
  WatchRawFromRevErr :: "string \<Rightarrow> int64 \<Rightarrow> error option"
  WatchRawPrefixFromRevErr :: "string \<Rightarrow> int64 \<Rightarrow> error option"

text \<open>
  \<open>meshInformer\<close>: the table \<open>watchers\<close> and the flag \<open>closed\<close> are the fields of
  the Go struct; \<open>store_calls\<close> is the log of what has been done to \<open>store\<close> and of
  the goroutines started (\<open>GoWatch\<close>, \<open>GoWatchPrefix\<close>).
\<close>

record meshInformer =
  watchers :: "(string \<times> Watcher) list"
  closed :: bool
  store_calls :: "store_call list"

definition NewInformer :: meshInformer where
  "NewInformer = \<lparr>watchers = [], closed = False, store_calls = []\<rparr>"

fun is_NewWatcher :: "store_call \<Rightarrow> bool" where
  "is_NewWatcher (NewWatcher w) = True"
| "is_NewWatcher c = False"

definition issued :: "meshInformer \<Rightarrow> nat" where
  "issued mi = length (filter is_NewWatcher (store_calls mi))"

definition call :: "store_call \<Rightarrow> meshInformer \<Rightarrow> meshInformer" where
  "call c mi = mi\<lparr>store_calls := store_calls mi @ [c]\<rparr>"

subsection \<open>The registry\<close>

definition stopWatchOneKey :: "meshInformer \<Rightarrow> string \<Rightarrow> meshInformer" where
  "stopWatchOneKey mi key =
     (case map_of (watchers mi) key of
        Some watcher \<Rightarrow>
          (call (CloseWatcher watcher) mi)\<lparr>watchers := AList.delete key (watchers mi)\<rparr>
      | None \<Rightarrow> mi)"

text \<open>
  The registration functions return Go's \<open>error\<close> (\<open>None\<close> is nil) and the informer
  after the call. The callback \<open>fn\<close> is only handed to the goroutine, which is the
  function \<open>watch\<close> below applied to what the channel delivers.
\<close>

definition onSpecPart ::
  "Storage \<Rightarrow> meshInformer \<Rightarrow> string \<Rightarrow> string \<Rightarrow> GJSONPath \<Rightarrow> error option \<times> meshInformer" where
  "onSpecPart store mi storeKey watcherKey gjsonPath =
     (if closed mi then (Some ErrClosed, mi)
      else if map_of (watchers mi) watcherKey \<noteq> None then (Some ErrAlreadyWatched, mi)
      else case GetRaw store storeKey of
             Inl err \<Rightarrow> (Some err, mi)
           | Inr None \<Rightarrow> (Some ErrNotFound, mi)
           | Inr (Some kv) \<Rightarrow>
               (case WatcherErr store (issued mi) of
                  Some err \<Rightarrow> (Some err, mi)
                | None \<Rightarrow>
                    (let watcher = issued mi;
                         mi1 = call (NewWatcher watcher) mi
                     in case WatchRawFromRevErr store storeKey (ModRevision kv) of
                          Some err \<Rightarrow> (Some err, mi1)
                        | None \<Rightarrow>
                            (let mi2 = call (WatchRawFromRev watcher storeKey (ModRevision kv)) mi1;
                                 mi3 = mi2\<lparr>watchers := (watcherKey, watcher) # watchers mi2\<rparr>
                             in (None, call (GoWatch watcherKey gjsonPath) mi3)))))"

text \<open>\<open>int64(^uint64(0) >> 1)\<close> and the loop that lowers it; \<open><s\<close> is the signed order.\<close>

definition maxInt64 :: int64 where
  "maxInt64 = drop_bit 1 (NOT 0)"

fun minRevision :: "int64 \<Rightarrow> (string \<times> KeyValue) list \<Rightarrow> int64" where
  "minRevision minRev [] = minRev"
| "minRevision minRev ((k, v) # kvs) =
     (if ModRevision v <s minRev then minRevision (ModRevision v) kvs
      else minRevision minRev kvs)"

definition onSpecs ::
  "Storage \<Rightarrow> meshInformer \<Rightarrow> string \<Rightarrow> string \<Rightarrow> error option \<times> meshInformer" where
  "onSpecs store mi storePrefix watcherKey =
     (if closed mi then (Some ErrClosed, mi)
      else if map_of (watchers mi) watcherKey \<noteq> None then (Some ErrAlreadyWatched, mi)
      else case GetRawPrefix store storePrefix of
             Inl err \<Rightarrow> (Some err, mi)
           | Inr kvs \<Rightarrow>
               (case WatcherErr store (issued mi) of
                  Some err \<Rightarrow> (Some err, mi)
                | None \<Rightarrow>
                    (let watcher = issued mi;
                         mi1 = call (NewWatcher watcher) mi;
                         minRev = minRevision maxInt64 kvs
                     in case WatchRawPrefixFromRevErr store storePrefix minRev of
                          Some err \<Rightarrow> (Some err, mi1)
                        | None \<Rightarrow>
                            (let mi2 = call (WatchRawPrefixFromRev watcher storePrefix minRev) mi1;
                                 mi3 = mi2\<lparr>watchers := (watcherKey, watcher) # watchers mi2\<rparr>
                             in (None, call (GoWatchPrefix watcherKey) mi3)))))"

text \<open>\<open>Close\<close> visits every entry of the table, closes its handle, and sets the flag.\<close>

definition Close :: "meshInformer \<Rightarrow> meshInformer" where
  "Close mi =
     mi\<lparr>store_calls := store_calls mi @ map (\<lambda>(key, watcher). CloseWatcher watcher) (watchers mi),
         closed := True\<rparr>"

subsection \<open>Watcher keys and the typed bindings\<close>

text \<open>\<open>fmt.Sprintf\<close> with \<open>%s\<close> verbs on strings is concatenation.\<close>

definition serviceSpecWatcherKey :: "string \<Rightarrow> GJSONPath \<Rightarrow> string" where
  "serviceSpecWatcherKey serviceName gjsonPath =
     ''service-spec-'' @ serviceName @ ''-'' @ gjsonPath"

definition serviceInstanceSpecWatcherKey :: "string \<Rightarrow> string" where
  "serviceInstanceSpecWatcherKey serviceName = ''prefix-service-instance-spec-'' @ serviceName"

text \<open>The functions of package \<open>layout\<close> that the bindings call.\<close>

record layout =
  ServiceSpecKey :: "string \<Rightarrow> string"
  ServiceInstanceSpecKey :: "string \<Rightarrow> string \<Rightarrow> string"
  ServiceInstanceStatusKey :: "string \<Rightarrow> string \<Rightarrow> string"
  TenantSpecKey :: "string \<Rightarrow> string"
  IngressSpecKey :: "string \<Rightarrow> string"
  ServiceInstanceSpecPrefix :: "string \<Rightarrow> string"
  ServiceInstanceStatusPrefix :: "string \<Rightarrow> string"
  IngressPrefix :: string

text \<open>
  The closures \<open>specFunc\<close> and \<open>specsFunc\<close> are the same in every binding up to the
  decoded type: \<open>unmarshal\<close> is \<open>yaml.Unmarshal\<close> into that type (\<open>None\<close> on
  error), \<open>zero\<close> its zero value.
\<close>

definition specFunc ::
  "(string \<Rightarrow> 'a option) \<Rightarrow> 'a \<Rightarrow> (Event \<Rightarrow> 'a \<Rightarrow> bool) \<Rightarrow> specHandleFunc" where
  "specFunc unmarshal zero fn event value =
     (if EventType event \<noteq> EventDelete
      then (case unmarshal value of None \<Rightarrow> True | Some decoded \<Rightarrow> fn event decoded)
      else fn event zero)"

definition specsFunc ::
  "(string \<Rightarrow> 'a option) \<Rightarrow> ((string \<rightharpoonup> 'a) \<Rightarrow> bool) \<Rightarrow> specsHandleFunc" where
  "specsFunc unmarshal fn kvs =
     fn (\<lambda>k. case kvs k of None \<Rightarrow> None | Some v \<Rightarrow> unmarshal v)"

definition OnPartOfServiceSpec ::
  "layout \<Rightarrow> Storage \<Rightarrow> meshInformer \<Rightarrow> string \<Rightarrow> GJSONPath \<Rightarrow> error option \<times> meshInformer" where
  "OnPartOfServiceSpec l store mi serviceName gjsonPath =
     (let storeKey = ServiceSpecKey l serviceName;
          watcherKey = serviceSpecWatcherKey serviceName gjsonPath
      in onSpecPart store mi storeKey watcherKey gjsonPath)"

definition StopWatchServiceSpec :: "meshInformer \<Rightarrow> string \<Rightarrow> GJSONPath \<Rightarrow> meshInformer" where
  "StopWatchServiceSpec mi serviceName gjsonPath =
     stopWatchOneKey mi (serviceSpecWatcherKey serviceName gjsonPath)"

definition OnPartOfInstanceSpec ::
  "layout \<Rightarrow> Storage \<Rightarrow> meshInformer \<Rightarrow> string \<Rightarrow> string \<Rightarrow> GJSONPath \<Rightarrow>
     error option \<times> meshInformer" where
  "OnPartOfInstanceSpec l store mi serviceName instanceID gjsonPath =
     (let storeKey = ServiceInstanceSpecKey l serviceName instanceID;
          watcherKey = ''service-instance-spec-'' @ serviceName @ ''-'' @ instanceID @ ''-'' @ gjsonPath
      in onSpecPart store mi storeKey watcherKey gjsonPath)"

definition OnPartOfServiceInstanceStatus ::
  "layout \<Rightarrow> Storage \<Rightarrow> meshInformer \<Rightarrow> string \<Rightarrow> string \<Rightarrow> GJSONPath \<Rightarrow>
     error option \<times> meshInformer" where
  "OnPartOfServiceInstanceStatus l store mi serviceName instanceID gjsonPath =
     (let storeKey = ServiceInstanceStatusKey l serviceName instanceID;
          watcherKey = ''service-instance-status-'' @ serviceName @ ''-'' @ instanceID @ ''-'' @ gjsonPath
      in onSpecPart store mi storeKey watcherKey gjsonPath)"

definition OnPartOfTenantSpec ::
  "layout \<Rightarrow> Storage \<Rightarrow> meshInformer \<Rightarrow> string \<Rightarrow> GJSONPath \<Rightarrow> error option \<times> meshInformer" where
  "OnPartOfTenantSpec l store mi tenant gjsonPath =
     (let storeKey = TenantSpecKey l tenant;
          watcherKey = ''tenant-'' @ tenant
      in onSpecPart store mi storeKey watcherKey gjsonPath)"

definition OnPartOfIngressSpec ::
  "layout \<Rightarrow> Storage \<Rightarrow> meshInformer \<Rightarrow> string \<Rightarrow> GJSONPath \<Rightarrow> error option \<times> meshInformer" where
  "OnPartOfIngressSpec l store mi ingress gjsonPath =
     (let storeKey = IngressSpecKey l ingress;
          watcherKey = ''ingress-'' @ ingress
      in onSpecPart store mi storeKey watcherKey gjsonPath)"

definition OnServiceSpecs ::
  "Storage \<Rightarrow> meshInformer \<Rightarrow> string \<Rightarrow> error option \<times> meshInformer" where
  "OnServiceSpecs store mi servicePrefix =
     onSpecs store mi servicePrefix (''prefix-service-'' @ servicePrefix)"

definition OnServiceInstanceSpecs ::
  "layout \<Rightarrow> Storage \<Rightarrow> meshInformer \<Rightarrow> string \<Rightarrow> error option \<times> meshInformer" where
  "OnServiceInstanceSpecs l store mi serviceName =
     onSpecs store mi (ServiceInstanceSpecPrefix l serviceName)
       (serviceInstanceSpecWatcherKey serviceName)"

definition StopWatchServiceInstanceSpec :: "meshInformer \<Rightarrow> string \<Rightarrow> meshInformer" where
  "StopWatchServiceInstanceSpec mi serviceName =
     stopWatchOneKey mi (serviceInstanceSpecWatcherKey serviceName)"

definition OnServiceInstanceStatuses ::
  "layout \<Rightarrow> Storage \<Rightarrow> meshInformer \<Rightarrow> string \<Rightarrow> error option \<times> meshInformer" where
  "OnServiceInstanceStatuses l store mi serviceName =
     onSpecs store mi (ServiceInstanceStatusPrefix l serviceName)
       (''prefix-service-instance-status-'' @ serviceName)"

definition OnTenantSpecs ::
  "Storage \<Rightarrow> meshInformer \<Rightarrow> string \<Rightarrow> error option \<times> meshInformer" where
  "OnTenantSpecs store mi tenantPrefix =
     onSpecs store mi tenantPrefix (''prefix-tenant-'' @ tenantPrefix)"

definition OnIngressSpecs ::
  "layout \<Rightarrow> Storage \<Rightarrow> meshInformer \<Rightarrow> error option \<times> meshInformer" where
  "OnIngressSpecs l store mi = onSpecs store mi (IngressPrefix l) ''prefix-ingress''"

subsection \<open>The single-key runner\<close>

text \<open>
  A runner returns the calls it made to the callback, in order, the informer it leaves,
  and how it ended. The callback is a function of its arguments.
\<close>

datatype exit = Returned | Panicked

text \<open>The \<open>for event = range ch\<close> loop of \<open>watch\<close>.\<close>

fun watch_loop ::
  "(string \<Rightarrow> string option) \<Rightarrow> (string \<Rightarrow> string \<Rightarrow> 'r) \<Rightarrow> string \<Rightarrow> GJSONPath \<Rightarrow>
     specHandleFunc \<Rightarrow> (Event \<times> string) list \<Rightarrow> meshInformer \<Rightarrow> string \<Rightarrow>
     clientv3_Event option list \<Rightarrow> (Event \<times> string) list \<times> meshInformer \<times> exit" where
  "watch_loop Y G watcherKey path fn calls mi oldValue [] = (calls, mi, Returned)"
| "watch_loop Y G watcherKey path fn calls mi oldValue (None # ch) =
     (let e = \<lparr>EventType = EventDelete, RawKV = None\<rparr>;
          continueWatch = fn e ''''
      in watch_loop Y G watcherKey path fn (calls @ [(e, '''')])
           (if \<not> continueWatch then stopWatchOneKey mi watcherKey else mi) oldValue ch)"
| "watch_loop Y G watcherKey path fn calls mi oldValue (Some event # ch) =
     (case Kv event of
        None \<Rightarrow> (calls, mi, Panicked)
      | Some kv \<Rightarrow>
          (let newValue = Value kv
           in if \<not> comparePart Y G path oldValue newValue
              then (let e = \<lparr>EventType = EventUpdate, RawKV = Kv event\<rparr>;
                        continueWatch = fn e newValue
                    in watch_loop Y G watcherKey path fn (calls @ [(e, newValue)])
                         (if \<not> continueWatch then stopWatchOneKey mi watcherKey else mi)
                         newValue ch)
              else watch_loop Y G watcherKey path fn calls mi newValue ch))"

text \<open>
  \<open>watch\<close>: the first receive, \<open>event.Kv.Value\<close> on what was received, the first call
  of the callback, then the loop.
\<close>

definition watch ::
  "(string \<Rightarrow> string option) \<Rightarrow> (string \<Rightarrow> string \<Rightarrow> 'r) \<Rightarrow> meshInformer \<Rightarrow>
     clientv3_Event option list \<Rightarrow> string \<Rightarrow> GJSONPath \<Rightarrow> specHandleFunc \<Rightarrow>
     (Event \<times> string) list \<times> meshInformer \<times> exit" where
  "watch Y G mi ch watcherKey path fn =
     (case ch of
        [] \<Rightarrow> ([], mi, Panicked)
      | None # ch' \<Rightarrow> ([], mi, Panicked)
      | Some event # ch' \<Rightarrow>
          (case Kv event of
             None \<Rightarrow> ([], mi, Panicked)
           | Some kv \<Rightarrow>
               (let oldValue = Value kv;
                    e = \<lparr>EventType = EventUpdate, RawKV = Kv event\<rparr>
                in watch_loop Y G watcherKey path fn [(e, oldValue)]
                     (if \<not> fn e oldValue then stopWatchOneKey mi watcherKey else mi)
                     oldValue ch')))"

subsection \<open>The prefix runner\<close>






subsection \<open>Concrete inputs for the examples\<close>

text \<open>
  A store that holds one service, one tenant and one ingress record and never fails, a
  layout, the informer after one registration on that tenant, and stand-ins for the two
  library functions: a converter that rejects the document \<open>{\<close> and copies every other
  one, and an extraction that returns the first four bytes of the document.
\<close>

definition exampleKV :: "string \<Rightarrow> string \<Rightarrow> KeyValue" where
  "exampleKV k v = \<lparr>Key = k, ModRevision = 7, Version = 1, Value = v\<rparr>"

definition exampleEvent :: "string \<Rightarrow> string \<Rightarrow> clientv3_Event" where
  "exampleEvent k v = \<lparr>Kv = Some (exampleKV k v)\<rparr>"

definition exampleStore :: Storage where
  "exampleStore =
     \<lparr>GetRaw = (\<lambda>k. if k = ''/services/s1'' \<or> k = ''/tenants/t1'' \<or> k = ''/ingress/i1''
                     then Inr (Some (exampleKV k ''name: x'')) else Inr None),
      GetRawPrefix = (\<lambda>p. Inr []),
      WatcherErr = (\<lambda>n. None),
      WatchRawFromRevErr = (\<lambda>k r. None),
      WatchRawPrefixFromRevErr = (\<lambda>k r. None)\<rparr>"

definition exampleLayout :: layout where
  "exampleLayout =
     \<lparr>ServiceSpecKey = (\<lambda>n. ''/services/'' @ n),
      ServiceInstanceSpecKey = (\<lambda>n i. ''/instances/'' @ n @ ''/'' @ i),
      ServiceInstanceStatusKey = (\<lambda>n i. ''/status/'' @ n @ ''/'' @ i),
      TenantSpecKey = (\<lambda>n. ''/tenants/'' @ n),
      IngressSpecKey = (\<lambda>n. ''/ingress/'' @ n),
      ServiceInstanceSpecPrefix = (\<lambda>n. ''/instances/'' @ n @ ''/''),
      ServiceInstanceStatusPrefix = (\<lambda>n. ''/status/'' @ n @ ''/''),
      IngressPrefix = ''/ingress/''\<rparr>"

definition exampleInformer :: meshInformer where
  "exampleInformer =
     \<lparr>watchers = [(''tenant-t1'', 0)], closed = False,
      store_calls = [NewWatcher 0, WatchRawFromRev 0 ''/tenants/t1'' 7,
                     GoWatch ''tenant-t1'' ''a'']\<rparr>"

definition exampleYAMLToJSON :: "string \<Rightarrow> string option" where
  "exampleYAMLToJSON d = (if d = ''{'' then None else Some d)"

definition exampleGet :: "string \<Rightarrow> string \<Rightarrow> string" where
  "exampleGet json path = take 4 json"

section \<open>Theorems\<close>

subsection \<open>The differ\<close>

text \<open>
  C7. With the empty path expression the differ is bytewise equality of the two raw
  documents, whatever the converter says about them (it is not consulted).
\<close>

theorem comparePart_AllParts:
  "comparePart YAMLToJSON gjson_Get AllParts d1 d2 = (d1 = d2)"
  by (simp add: comparePart_def)

text \<open>
  With a non-empty path and two documents that the converter accepts, the differ is
  equality of the two results of \<open>gjson.Get\<close> at that path.
\<close>

lemma comparePart_converted:
  "path \<noteq> AllParts \<Longrightarrow> YAMLToJSON d1 = Some j1 \<Longrightarrow> YAMLToJSON d2 = Some j2 \<Longrightarrow>
     comparePart YAMLToJSON gjson_Get path d1 d2 = (gjson_Get j1 path = gjson_Get j2 path)"
  by (simp add: comparePart_def)

text \<open>
  C5, as amended. With a non-empty path, if the converter rejects one of the two
  documents the differ returns true. (The model of \<open>comparePart\<close> has no panic branch:
  it returns for all arguments.)
\<close>

theorem comparePart_malformed:
  "path \<noteq> AllParts \<Longrightarrow> YAMLToJSON d1 = None \<or> YAMLToJSON d2 = None \<Longrightarrow>
     comparePart YAMLToJSON gjson_Get path d1 d2"
  by (auto simp: comparePart_def split: option.splits)

theorem comparePart_malformed_witness:
  "ServiceObservability \<noteq> AllParts \<and> exampleYAMLToJSON ''{'' = None
   \<and> comparePart exampleYAMLToJSON exampleGet ServiceObservability ''{'' ''a: 1''
   \<and> comparePart exampleYAMLToJSON exampleGet ServiceObservability ''a: 1'' ''{''"
  using comparePart_malformed[of ServiceObservability exampleYAMLToJSON "''{''" "''a: 1''" exampleGet]
    comparePart_malformed[of ServiceObservability exampleYAMLToJSON "''a: 1''" "''{''" exampleGet]
  by (simp add: AllParts_def ServiceObservability_def exampleYAMLToJSON_def)

text \<open>
  The claim as stated fails at the empty path: two different documents, both rejected
  by the converter, are reported as different.
\<close>

theorem comparePart_malformed_AllParts_counterexample:
  "exampleYAMLToJSON ''{'' = None
   \<and> \<not> comparePart exampleYAMLToJSON exampleGet AllParts ''{'' ''a: 1''"
  by (simp add: comparePart_def exampleYAMLToJSON_def)

subsection \<open>The registry\<close>

lemma closed_call [simp]: "closed (call c mi) = closed mi"
  by (simp add: call_def)

lemma watchers_call [simp]: "watchers (call c mi) = watchers mi"
  by (simp add: call_def)

lemma store_calls_call [simp]: "store_calls (call c mi) = store_calls mi @ [c]"
  by (simp add: call_def)

lemma closed_stopWatchOneKey [simp]: "closed (stopWatchOneKey mi key) = closed mi"
  by (simp add: stopWatchOneKey_def split: option.splits)

lemma closed_onSpecPart [simp]:
  "closed (snd (onSpecPart store mi storeKey watcherKey gjsonPath)) = closed mi"
  by (simp add: onSpecPart_def Let_def split: option.splits sum.splits)

lemma closed_onSpecs [simp]:
  "closed (snd (onSpecs store mi storePrefix watcherKey)) = closed mi"
  by (simp add: onSpecs_def Let_def split: option.splits sum.splits)

lemma stopWatchOneKey_absent:
  "map_of (watchers mi) key = None \<Longrightarrow> stopWatchOneKey mi key = mi"
  by (simp add: stopWatchOneKey_def)

lemma stopWatchOneKey_present:
  "map_of (watchers mi) key = Some w \<Longrightarrow>
     stopWatchOneKey mi key =
       mi\<lparr>watchers := AList.delete key (watchers mi),
          store_calls := store_calls mi @ [CloseWatcher w]\<rparr>"
  by (simp add: stopWatchOneKey_def call_def)

lemma watchers_stopWatchOneKey:
  "map_of (watchers (stopWatchOneKey mi key)) = (map_of (watchers mi))(key := None)"
  by (auto simp: stopWatchOneKey_def AList.delete_conv' split: option.splits)

lemma onSpecPart_registers:
  assumes "\<not> closed mi" and "map_of (watchers mi) watcherKey = None"
    and "GetRaw store storeKey = Inr (Some kv)"
    and "WatcherErr store (issued mi) = None"
    and "WatchRawFromRevErr store storeKey (ModRevision kv) = None"
  shows "onSpecPart store mi storeKey watcherKey gjsonPath =
           (None, mi\<lparr>watchers := (watcherKey, issued mi) # watchers mi,
                     store_calls := store_calls mi @
                       [NewWatcher (issued mi),
                        WatchRawFromRev (issued mi) storeKey (ModRevision kv),
                        GoWatch watcherKey gjsonPath]\<rparr>)"
  using assms by (simp add: onSpecPart_def Let_def call_def)

lemma onSpecPart_AlreadyWatched:
  "\<not> closed mi \<Longrightarrow> map_of (watchers mi) watcherKey = Some w \<Longrightarrow>
     onSpecPart store mi storeKey watcherKey gjsonPath = (Some ErrAlreadyWatched, mi)"
  by (simp add: onSpecPart_def)

lemma onSpecs_AlreadyWatched:
  "\<not> closed mi \<Longrightarrow> map_of (watchers mi) watcherKey = Some w \<Longrightarrow>
     onSpecs store mi storePrefix watcherKey = (Some ErrAlreadyWatched, mi)"
  by (simp add: onSpecs_def)

lemma exampleInformer_registered:
  "OnPartOfTenantSpec exampleLayout exampleStore NewInformer ''t1'' ''a'' = (None, exampleInformer)"
  by (simp add: OnPartOfTenantSpec_def exampleLayout_def exampleStore_def NewInformer_def
      exampleInformer_def onSpecPart_def exampleKV_def issued_def call_def Let_def)

text \<open>
  C8. A single-key registration that gets as far as the baseline read (the informer is
  open and the watch key is free) and finds no record returns \<open>ErrNotFound\<close> and leaves
  the informer as it was: the table is unchanged, and the log of store calls shows no
  handle obtained, no watch started and no goroutine.
\<close>

theorem onSpecPart_NotFound:
  assumes "\<not> closed mi" and "map_of (watchers mi) watcherKey = None"
    and "GetRaw store storeKey = Inr None"
  shows "onSpecPart store mi storeKey watcherKey gjsonPath = (Some ErrNotFound, mi)"
  using assms by (simp add: onSpecPart_def)

theorem onSpecPart_NotFound_witness:
  "onSpecPart exampleStore NewInformer ''/tenants/t9'' ''tenant-t9'' ''a''
     = (Some ErrNotFound, NewInformer)"
  by (rule onSpecPart_NotFound) (simp_all add: NewInformer_def exampleStore_def)

text \<open>
  C9. On an open informer and a store that answers, registering a free watch key
  succeeds and enters it in the table (\<open>mi1\<close>); registering the same key again, with any
  path, returns \<open>ErrAlreadyWatched\<close> and changes nothing; \<open>stopWatchOneKey\<close> then closes
  the handle and removes the entry (\<open>mi2\<close>), a second \<open>stopWatchOneKey\<close> does nothing,
  and registering the key once more succeeds with a fresh handle.
\<close>

theorem register_twice_then_cancel:
  assumes "\<not> closed mi" and "map_of (watchers mi) watcherKey = None"
    and "GetRaw store storeKey = Inr (Some kv)"
    and "\<forall>n. WatcherErr store n = None"
    and "WatchRawFromRevErr store storeKey (ModRevision kv) = None"
    and "mi1 = snd (onSpecPart store mi storeKey watcherKey gjsonPath)"
    and "mi2 = stopWatchOneKey mi1 watcherKey"
  shows "fst (onSpecPart store mi storeKey watcherKey gjsonPath) = None
       \<and> map_of (watchers mi1) watcherKey = Some (issued mi)
       \<and> onSpecPart store mi1 storeKey watcherKey gjsonPath' = (Some ErrAlreadyWatched, mi1)
       \<and> map_of (watchers mi2) watcherKey = None
       \<and> store_calls mi2 = store_calls mi1 @ [CloseWatcher (issued mi)]
       \<and> stopWatchOneKey mi2 watcherKey = mi2
       \<and> fst (onSpecPart store mi2 storeKey watcherKey gjsonPath') = None
       \<and> map_of (watchers (snd (onSpecPart store mi2 storeKey watcherKey gjsonPath'))) watcherKey
            = Some (issued mi2)"
proof -
  have r1: "onSpecPart store mi storeKey watcherKey gjsonPath =
           (None, mi\<lparr>watchers := (watcherKey, issued mi) # watchers mi,
                     store_calls := store_calls mi @
                       [NewWatcher (issued mi),
                        WatchRawFromRev (issued mi) storeKey (ModRevision kv),
                        GoWatch watcherKey gjsonPath]\<rparr>)"
    using assms(1-5) by (intro onSpecPart_registers) auto
  have w1: "map_of (watchers mi1) watcherKey = Some (issued mi)"
    using r1 assms(6) by simp
  have c1: "\<not> closed mi1"
    using assms(1,6) by simp
  have c2: "\<not> closed mi2"
    using c1 assms(7) by simp
  have a: "onSpecPart store mi1 storeKey watcherKey gjsonPath' = (Some ErrAlreadyWatched, mi1)"
    using c1 w1 by (rule onSpecPart_AlreadyWatched)
  have w2: "map_of (watchers mi2) watcherKey = None"
    using assms(7) by (simp add: watchers_stopWatchOneKey)
  have s2: "store_calls mi2 = store_calls mi1 @ [CloseWatcher (issued mi)]"
    using assms(7) w1 by (simp add: stopWatchOneKey_present)
  have i2: "stopWatchOneKey mi2 watcherKey = mi2"
    using w2 by (rule stopWatchOneKey_absent)
  have r2: "onSpecPart store mi2 storeKey watcherKey gjsonPath' =
           (None, mi2\<lparr>watchers := (watcherKey, issued mi2) # watchers mi2,
                     store_calls := store_calls mi2 @
                       [NewWatcher (issued mi2),
                        WatchRawFromRev (issued mi2) storeKey (ModRevision kv),
                        GoWatch watcherKey gjsonPath']\<rparr>)"
    using c2 w2 assms(3-5) by (intro onSpecPart_registers) auto
  show ?thesis
    using r1 w1 a w2 s2 i2 r2 by simp
qed

theorem register_twice_then_cancel_witness:
  "onSpecPart exampleStore NewInformer ''/tenants/t1'' ''tenant-t1'' ''a'' = (None, exampleInformer)
   \<and> onSpecPart exampleStore exampleInformer ''/tenants/t1'' ''tenant-t1'' ''b''
       = (Some ErrAlreadyWatched, exampleInformer)
   \<and> store_calls (stopWatchOneKey exampleInformer ''tenant-t1'')
       = store_calls exampleInformer @ [CloseWatcher 0]
   \<and> fst (onSpecPart exampleStore (stopWatchOneKey exampleInformer ''tenant-t1'')
            ''/tenants/t1'' ''tenant-t1'' ''b'') = None"
proof -
  have e: "onSpecPart exampleStore NewInformer ''/tenants/t1'' ''tenant-t1'' ''a''
             = (None, exampleInformer)"
    using exampleInformer_registered
    by (simp add: OnPartOfTenantSpec_def exampleLayout_def Let_def)
  have "GetRaw exampleStore ''/tenants/t1'' = Inr (Some (exampleKV ''/tenants/t1'' ''name: x''))"
    by (simp add: exampleStore_def)
  moreover have "\<forall>n. WatcherErr exampleStore n = None"
    by (simp add: exampleStore_def)
  moreover have "WatchRawFromRevErr exampleStore ''/tenants/t1''
                   (ModRevision (exampleKV ''/tenants/t1'' ''name: x'')) = None"
    by (simp add: exampleStore_def)
  moreover have "\<not> closed NewInformer" and "map_of (watchers NewInformer) ''tenant-t1'' = None"
    by (simp_all add: NewInformer_def)
  ultimately show ?thesis
    using register_twice_then_cancel[of NewInformer "''tenant-t1''" exampleStore
        "''/tenants/t1''" "exampleKV ''/tenants/t1'' ''name: x''" exampleInformer "''a''"
        "stopWatchOneKey exampleInformer ''tenant-t1''" "''b''"] e
    by (simp add: NewInformer_def issued_def)
qed

text \<open>
  The same holds for a prefix registration, which shares the table: the second
  registration of its watch key is refused, by \<open>onSpecs\<close> and by \<open>onSpecPart\<close> alike,
  until the key is cancelled.
\<close>

lemma onSpecs_registers:
  assumes "\<not> closed mi" and "map_of (watchers mi) watcherKey = None"
    and "GetRawPrefix store storePrefix = Inr kvs"
    and "WatcherErr store (issued mi) = None"
    and "WatchRawPrefixFromRevErr store storePrefix (minRevision maxInt64 kvs) = None"
  shows "onSpecs store mi storePrefix watcherKey =
           (None, mi\<lparr>watchers := (watcherKey, issued mi) # watchers mi,
                     store_calls := store_calls mi @
                       [NewWatcher (issued mi),
                        WatchRawPrefixFromRev (issued mi) storePrefix (minRevision maxInt64 kvs),
                        GoWatchPrefix watcherKey]\<rparr>)"
  using assms by (simp add: onSpecs_def Let_def call_def)

lemma onSpecs_twice_then_cancel:
  assumes "\<not> closed mi" and "map_of (watchers mi) watcherKey = None"
    and "GetRawPrefix store storePrefix = Inr kvs"
    and "\<forall>n. WatcherErr store n = None"
    and "WatchRawPrefixFromRevErr store storePrefix (minRevision maxInt64 kvs) = None"
    and "mi1 = snd (onSpecs store mi storePrefix watcherKey)"
    and "mi2 = stopWatchOneKey mi1 watcherKey"
  shows "fst (onSpecs store mi storePrefix watcherKey) = None
       \<and> onSpecs store mi1 storePrefix watcherKey = (Some ErrAlreadyWatched, mi1)
       \<and> onSpecPart store mi1 storeKey watcherKey gjsonPath = (Some ErrAlreadyWatched, mi1)
       \<and> map_of (watchers mi2) watcherKey = None
       \<and> fst (onSpecs store mi2 storePrefix watcherKey) = None"
proof -
  have r1: "onSpecs store mi storePrefix watcherKey =
           (None, mi\<lparr>watchers := (watcherKey, issued mi) # watchers mi,
                     store_calls := store_calls mi @
                       [NewWatcher (issued mi),
                        WatchRawPrefixFromRev (issued mi) storePrefix (minRevision maxInt64 kvs),
                        GoWatchPrefix watcherKey]\<rparr>)"
    using assms(1-5) by (intro onSpecs_registers) auto
  have w1: "map_of (watchers mi1) watcherKey = Some (issued mi)"
    using r1 assms(6) by simp
  have c1: "\<not> closed mi1"
    using assms(1,6) by simp
  have c2: "\<not> closed mi2"
    using c1 assms(7) by simp
  have w2: "map_of (watchers mi2) watcherKey = None"
    using assms(7) by (simp add: watchers_stopWatchOneKey)
  have r2: "fst (onSpecs store mi2 storePrefix watcherKey) = None"
    using onSpecs_registers[of mi2 watcherKey store storePrefix kvs] c2 w2 assms(3-5) by simp
  show ?thesis
    using r1 w1 c1 w2 r2 onSpecs_AlreadyWatched[OF c1 w1] onSpecPart_AlreadyWatched[OF c1 w1]
    by simp
qed

text \<open>
  What \<open>Close\<close> does to the handles and to later registrations: it calls \<open>Close\<close> on
  the handle of every entry of the table, once per entry, and sets the flag; the flag
  then stays set, and every registration, single-key or prefix, returns \<open>ErrClosed\<close>
  and changes nothing.
\<close>

lemma Close_closes_and_gates:
  "(\<forall>(key, watcher) \<in> set (watchers mi). CloseWatcher watcher \<in> set (store_calls (Close mi)))
   \<and> store_calls (Close mi)
        = store_calls mi @ map (\<lambda>(key, watcher). CloseWatcher watcher) (watchers mi)
   \<and> closed (Close mi)
   \<and> (closed m \<longrightarrow> onSpecPart store m storeKey watcherKey gjsonPath = (Some ErrClosed, m))
   \<and> (closed m \<longrightarrow> onSpecs store m storePrefix watcherKey' = (Some ErrClosed, m))
   \<and> (closed m \<longrightarrow> closed (stopWatchOneKey m key) \<and> closed (Close m))"
  by (auto simp: Close_def onSpecPart_def onSpecs_def)

text \<open>
  C2. After shutdown the handles are closed and registrations are refused, but the
  table is not emptied: \<open>Close\<close> never deletes an entry, where \<open>stopWatchOneKey\<close>
  closes and deletes. On the example store, one service is registered and the informer
  closed: the handle is closed and a new registration returns \<open>ErrClosed\<close>, yet the
  entry is still in the table, so that \<open>StopWatchServiceSpec\<close> for it calls \<open>Close\<close> on
  the same handle a second time.
\<close>

theorem Close_leaves_entry_closed_twice:
  "OnPartOfServiceSpec exampleLayout exampleStore NewInformer ''s1'' ''a''
     = (None, \<lparr>watchers = [(''service-spec-s1-a'', 0)], closed = False,
               store_calls = [NewWatcher 0, WatchRawFromRev 0 ''/services/s1'' 7,
                              GoWatch ''service-spec-s1-a'' ''a'']\<rparr>)
   \<and> Close (snd (OnPartOfServiceSpec exampleLayout exampleStore NewInformer ''s1'' ''a''))
     = \<lparr>watchers = [(''service-spec-s1-a'', 0)], closed = True,
        store_calls = [NewWatcher 0, WatchRawFromRev 0 ''/services/s1'' 7,
                       GoWatch ''service-spec-s1-a'' ''a'', CloseWatcher 0]\<rparr>
   \<and> fst (OnPartOfServiceSpec exampleLayout exampleStore
         (Close (snd (OnPartOfServiceSpec exampleLayout exampleStore NewInformer ''s1'' ''a'')))
         ''s1'' ''b'') = Some ErrClosed
   \<and> StopWatchServiceSpec
         (Close (snd (OnPartOfServiceSpec exampleLayout exampleStore NewInformer ''s1'' ''a'')))
         ''s1'' ''a''
     = \<lparr>watchers = [], closed = True,
        store_calls = [NewWatcher 0, WatchRawFromRev 0 ''/services/s1'' 7,
                       GoWatch ''service-spec-s1-a'' ''a'', CloseWatcher 0, CloseWatcher 0]\<rparr>"
proof -
  have r: "OnPartOfServiceSpec exampleLayout exampleStore NewInformer ''s1'' ''a''
     = (None, \<lparr>watchers = [(''service-spec-s1-a'', 0)], closed = False,
               store_calls = [NewWatcher 0, WatchRawFromRev 0 ''/services/s1'' 7,
                              GoWatch ''service-spec-s1-a'' ''a'']\<rparr>)"
    by (simp add: OnPartOfServiceSpec_def serviceSpecWatcherKey_def exampleLayout_def
        exampleStore_def NewInformer_def onSpecPart_def exampleKV_def issued_def call_def Let_def)
  show ?thesis
    unfolding r
    by (simp add: Close_def OnPartOfServiceSpec_def StopWatchServiceSpec_def
        serviceSpecWatcherKey_def onSpecPart_def stopWatchOneKey_def call_def Let_def)
qed

text \<open>
  The watch keys of the service, instance-spec and instance-status bindings contain the
  path; those of the tenant and ingress bindings do not, so that a second registration
  of a tenant finds the key of the first, whatever the two paths are.
\<close>

lemma serviceSpecWatcherKey_path:
  "serviceSpecWatcherKey serviceName p = serviceSpecWatcherKey serviceName p' \<longleftrightarrow> p = p'"
  by (simp add: serviceSpecWatcherKey_def)

lemma tenant_second_path_AlreadyWatched:
  assumes "fst (OnPartOfTenantSpec l store mi tenant p) = None"
  shows "OnPartOfTenantSpec l store (snd (OnPartOfTenantSpec l store mi tenant p)) tenant p'
           = (Some ErrAlreadyWatched, snd (OnPartOfTenantSpec l store mi tenant p))"
  using assms
  by (auto simp: OnPartOfTenantSpec_def onSpecPart_def Let_def call_def
      split: if_splits sum.splits option.splits)

text \<open>
  C3. The watch key is a function of the kind, the identifiers and the path, but for a
  tenant and for an ingress it does not depend on the path. On the example store, a
  tenant and an ingress are each registered with path \<open>a\<close>; the registration of the same
  tenant, and of the same ingress, with path \<open>b\<close> then returns \<open>ErrAlreadyWatched\<close>.
\<close>

theorem OnPartOf_second_path_AlreadyWatched:
  "fst (OnPartOfTenantSpec exampleLayout exampleStore NewInformer ''t1'' ''a'') = None
   \<and> fst (OnPartOfTenantSpec exampleLayout exampleStore
        (snd (OnPartOfTenantSpec exampleLayout exampleStore NewInformer ''t1'' ''a'')) ''t1'' ''b'')
     = Some ErrAlreadyWatched
   \<and> fst (OnPartOfIngressSpec exampleLayout exampleStore NewInformer ''i1'' ''a'') = None
   \<and> fst (OnPartOfIngressSpec exampleLayout exampleStore
        (snd (OnPartOfIngressSpec exampleLayout exampleStore NewInformer ''i1'' ''a'')) ''i1'' ''b'')
     = Some ErrAlreadyWatched"
  by (simp add: OnPartOfTenantSpec_def OnPartOfIngressSpec_def exampleLayout_def exampleStore_def
      NewInformer_def onSpecPart_def exampleKV_def issued_def call_def Let_def)

subsection \<open>The single-key runner\<close>

lemma watch_loop_calls_prefix:
  "prefix calls (fst (watch_loop Y G watcherKey path fn calls mi oldValue ch))"
proof (induction ch arbitrary: calls mi oldValue)
  case Nil
  show ?case by simp
next
  case (Cons e ch)
  have step: "prefix calls (fst (watch_loop Y G watcherKey path fn (calls @ [c]) mi' v ch))"
    for c mi' v
    using Cons.IH append_prefixD by blast
  show ?case
    by (cases e) (auto simp: Let_def step Cons.IH split: option.splits)
qed

text \<open>
  C10. \<open>watch\<close> evaluates \<open>event.Kv.Value\<close> on the first element it receives before it
  calls the callback. If the channel is closed before any element, or the first element
  is the nil deletion marker, or the first event has no record, the runner panics with
  no call made and the informer untouched. If the first element is an event with a
  record, the first call of the callback is the Update with that record.
\<close>

theorem watch_priming:
  "(ch = [] \<or> (\<exists>ch'. ch = None # ch') \<or> (\<exists>event ch'. ch = Some event # ch' \<and> Kv event = None)
      \<longrightarrow> watch Y G mi ch watcherKey path fn = ([], mi, Panicked))
   \<and> (\<forall>event kv ch'. ch = Some event # ch' \<and> Kv event = Some kv
      \<longrightarrow> (\<exists>more. fst (watch Y G mi ch watcherKey path fn)
             = (\<lparr>EventType = EventUpdate, RawKV = Some kv\<rparr>, Value kv) # more))"
proof (intro conjI impI allI)
  assume "ch = [] \<or> (\<exists>ch'. ch = None # ch')
            \<or> (\<exists>event ch'. ch = Some event # ch' \<and> Kv event = None)"
  then show "watch Y G mi ch watcherKey path fn = ([], mi, Panicked)"
    by (auto simp: watch_def)
next
  fix event kv ch'
  assume a: "ch = Some event # ch' \<and> Kv event = Some kv"
  let ?e = "\<lparr>EventType = EventUpdate, RawKV = Some kv\<rparr>"
  have "prefix [(?e, Value kv)]
          (fst (watch_loop Y G watcherKey path fn [(?e, Value kv)]
            (if \<not> fn ?e (Value kv) then stopWatchOneKey mi watcherKey else mi) (Value kv) ch'))"
    by (rule watch_loop_calls_prefix)
  with a show "\<exists>more. fst (watch Y G mi ch watcherKey path fn) = (?e, Value kv) # more"
    by (auto simp: watch_def Let_def prefix_def)
qed

theorem watch_priming_witness:
  "watch exampleYAMLToJSON exampleGet exampleInformer [] ''tenant-t1'' ''a'' (\<lambda>e v. True)
     = ([], exampleInformer, Panicked)
   \<and> watch exampleYAMLToJSON exampleGet exampleInformer
       [None, Some (exampleEvent ''/tenants/t1'' ''a: 1'')] ''tenant-t1'' ''a'' (\<lambda>e v. True)
     = ([], exampleInformer, Panicked)
   \<and> (\<exists>more. fst (watch exampleYAMLToJSON exampleGet exampleInformer
         [Some (exampleEvent ''/tenants/t1'' ''a: 1''), None] ''tenant-t1'' ''a'' (\<lambda>e v. True))
       = (\<lparr>EventType = EventUpdate, RawKV = Some (exampleKV ''/tenants/t1'' ''a: 1'')\<rparr>,
          ''a: 1'') # more)"
  using watch_priming[of "[]" exampleYAMLToJSON exampleGet exampleInformer "''tenant-t1''" "''a''"
      "\<lambda>e v. True"]
    watch_priming[of "[None, Some (exampleEvent ''/tenants/t1'' ''a: 1'')]" exampleYAMLToJSON
      exampleGet exampleInformer "''tenant-t1''" "''a''" "\<lambda>e v. True"]
    watch_priming[of "[Some (exampleEvent ''/tenants/t1'' ''a: 1''), None]" exampleYAMLToJSON
      exampleGet exampleInformer "''tenant-t1''" "''a''" "\<lambda>e v. True"]
  by (simp add: exampleEvent_def exampleKV_def)





subsection \<open>The prefix runner\<close>




end
